theory Spec2Isabelle
  imports Complex_Main "HOL-Library.Signed_Division"
begin

section \<open>Numbers\<close>

text \<open>
  The gridder computes on C++ \<open>double\<close> and \<open>int\<close>.

  A \<open>double\<close> is modelled as a \<^typ>\<open>real\<close>: every arithmetic operation is exact, and
  rounding, infinities and NaN are outside the model. \<open>DBL_MAX\<close> is the largest finite
  double.

  An \<open>int\<close> is modelled as an \<^typ>\<open>int\<close> together with the 32-bit range written out
  where the source can leave it: the product \<open>_cellsX * _cellsY\<close> wraps around (two's
  complement), and the conversion \<open>(int) d\<close> of a double outside the range of \<open>int\<close>,
  which C++ leaves undefined, is an error value.
\<close>

definition INT_MAX :: int where
  "INT_MAX = 2147483647"

definition INT_MIN :: int where
  "INT_MIN = - 2147483648"

definition DBL_MAX :: real where
  "DBL_MAX = (2 ^ 53 - 1) * 2 ^ 971"

definition wrap_int :: "int \<Rightarrow> int" where
  "wrap_int n = (n + 2 ^ 31) mod 2 ^ 32 - 2 ^ 31"

datatype error = Conversion_Out_Of_Range

definition double_to_int :: "real \<Rightarrow> error + int" where
  \<comment> \<open>\<open>(int) d\<close>: truncation towards zero, defined only inside the range of \<open>int\<close>\<close>
  "double_to_int d =
     (let t = (if 0 \<le> d then \<lfloor>d\<rfloor> else \<lceil>d\<rceil>)
      in if INT_MIN \<le> t \<and> t \<le> INT_MAX then Inr t else Inl Conversion_Out_Of_Range)"

definition ceil_double :: "real \<Rightarrow> real" where
  \<comment> \<open>\<open>::ceil\<close> of the C library\<close>
  "ceil_double d = of_int \<lceil>d\<rceil>"

definition clampAbove :: "'a::linorder \<Rightarrow> 'a \<Rightarrow> 'a" where
  \<comment> \<open>\<open>osg::clampAbove(v, minimum)\<close> is \<open>v < minimum ? minimum : v\<close>\<close>
  "clampAbove v minimum = (if v < minimum then minimum else v)"

definition clampBelow :: "'a::linorder \<Rightarrow> 'a \<Rightarrow> 'a" where
  \<comment> \<open>\<open>osg::clampBelow(v, maximum)\<close> is \<open>v > maximum ? maximum : v\<close>\<close>
  "clampBelow v maximum = (if v > maximum then maximum else v)"


section \<open>Data model\<close>

text \<open>
  Modelled from the spec: the \<open>optional<T>\<close> template of osgEarth, whose declaration is
  not part of the source file. A field is a value together with a flag telling whether it
  was set; an unset field holds its default (the \<open>DBL_MAX\<close> sentinel for the cell size).
  Assigning a value sets the flag; comparing an optional with a plain value compares the
  stored value.
\<close>

record 'a optional =
  isSet :: bool
  "value" :: 'a

definition optional_default :: "'a \<Rightarrow> 'a optional" where
  "optional_default d = \<lparr>isSet = False, value = d\<rparr>"

definition optional_assign :: "'a \<Rightarrow> 'a optional \<Rightarrow> 'a optional" where
  "optional_assign v opt = opt\<lparr>isSet := True, value := v\<rparr>"

datatype CullingTechnique = CULL_BY_CENTROID | CULL_BY_CROPPING

record GriddingPolicy =
  cellSize :: "real optional"
  cullingTechnique :: "CullingTechnique optional"
  spatializeGroups :: "bool optional"
  clusterCulling :: "bool optional"

definition GriddingPolicy_default :: GriddingPolicy where
  \<comment> \<open>\<open>GriddingPolicy::GriddingPolicy()\<close>\<close>
  "GriddingPolicy_default =
     \<lparr>cellSize = optional_default DBL_MAX,
      cullingTechnique = optional_default CULL_BY_CENTROID,
      spatializeGroups = optional_default True,
      clusterCulling = optional_default False\<rparr>"

text \<open>
  Modelled from the spec: the \<open>Bounds\<close> rectangle, whose class is not part of the source
  file. Width and height are derived from the edges, the containment test is inclusive
  on all four edges, and the centre is the midpoint of the two corners.
\<close>

record Bounds =
  xMin :: real
  yMin :: real
  xMax :: real
  yMax :: real

definition width :: "Bounds \<Rightarrow> real" where
  "width b = xMax b - xMin b"

definition height :: "Bounds \<Rightarrow> real" where
  "height b = yMax b - yMin b"

definition contains :: "Bounds \<Rightarrow> real \<Rightarrow> real \<Rightarrow> bool" where
  "contains b px py \<longleftrightarrow> xMin b \<le> px \<and> px \<le> xMax b \<and> yMin b \<le> py \<and> py \<le> yMax b"

definition center :: "Bounds \<Rightarrow> real \<times> real" where
  "center b = ((xMin b + xMax b) / 2, (yMin b + yMax b) / 2)"

text \<open>
  A feature is an identifier and a geometry slot; the slot may be empty (a null pointer).
  The geometry type \<open>'g\<close> is opaque. What the gridder asks of it is collected in
  \<open>Geometry\<close>: its bounding box, its validity, and the construction of a polygon from a
  list of vertices.
\<close>

record 'g Feature =
  fid :: nat
  geometry :: "'g option"

type_synonym Vec3d = "real \<times> real \<times> real"

record 'g Geometry =
  getBounds :: "'g \<Rightarrow> Bounds"
  isValid :: "'g \<Rightarrow> bool"
  Polygon :: "Vec3d list \<Rightarrow> 'g"

text \<open>
  The overlay engine (GEOS), present only when the build defines \<open>OSGEARTH_HAVE_GEOS\<close>.
  \<open>importGeometry\<close> and \<open>exportGeometry\<close> return a pointer that may be null; the overlay
  operation either throws or returns such a pointer. Engine geometries have type \<open>'e\<close>.
\<close>

datatype 'e overlay_result = Throws | Returns "'e option"

record ('g, 'e) GEOS =
  importGeometry :: "'g \<Rightarrow> 'e option"
  overlayOp_INTERSECTION :: "'e \<Rightarrow> 'e option \<Rightarrow> 'e overlay_result"
  exportGeometry :: "'e \<Rightarrow> 'g option"


datatype notify =
  Cropping_Requires_GEOS
  | Overlay_Exception
  | Grid_Cell int Bounds nat nat


record FeatureGridder =
  inputBounds :: Bounds
  policy :: GriddingPolicy
  cellsX :: int
  cellsY :: int


section \<open>The gridder\<close>

definition grid_dimensions :: "Bounds \<Rightarrow> GriddingPolicy \<Rightarrow> error + int \<times> int" where
  \<comment> \<open>the first statement of the constructor, before clamping\<close>
  "grid_dimensions b p =
     (if isSet (cellSize p) \<and> value (cellSize p) > 0 then
        (case double_to_int (ceil_double (width b / value (cellSize p))) of
           Inl e \<Rightarrow> Inl e
         | Inr cx \<Rightarrow>
            (case double_to_int (ceil_double (height b / value (cellSize p))) of
               Inl e \<Rightarrow> Inl e
             | Inr cy \<Rightarrow> Inr (cx, cy)))
      else Inr (1, 1))"

definition FeatureGridder_new ::
  "bool \<Rightarrow> Bounds \<Rightarrow> GriddingPolicy \<Rightarrow> error + FeatureGridder \<times> notify list" where
  \<comment> \<open>\<open>FeatureGridder::FeatureGridder\<close>; \<open>have_geos\<close> is the build flag \<open>OSGEARTH_HAVE_GEOS\<close>\<close>
  "FeatureGridder_new have_geos b p =
     (case grid_dimensions b p of
        Inl e \<Rightarrow> Inl e
      | Inr (cx, cy) \<Rightarrow>
         (let g = \<lparr>inputBounds = b, policy = p,
                   cellsX = clampAbove cx 1, cellsY = clampAbove cy 1\<rparr>
          in if \<not> have_geos \<and> isSet (cullingTechnique p)
                \<and> value (cullingTechnique p) = CULL_BY_CROPPING
             then Inr (g\<lparr>policy := p\<lparr>cullingTechnique :=
                            optional_assign CULL_BY_CENTROID (cullingTechnique p)\<rparr>\<rparr>,
                       [Cropping_Requires_GEOS])
             else Inr (g, [])))"

definition getNumCells :: "FeatureGridder \<Rightarrow> int" where
  "getNumCells g = wrap_int (cellsX g * cellsY g)"

definition getCellBounds :: "FeatureGridder \<Rightarrow> int \<Rightarrow> Bounds \<Rightarrow> bool \<times> Bounds" where
  \<comment> \<open>the reference parameter \<open>output\<close> is returned beside the result; it is left as it
      was when the index is refused. In the accepted branch \<open>x + 1\<close> is at most \<open>_cellsX\<close>.\<close>
  "getCellBounds g i output =
     (if i \<ge> 0 \<and> i < wrap_int (cellsX g * cellsY g) then
        (let x = i smod cellsX g;
             y = i sdiv cellsX g;
             xmin = xMin (inputBounds g) + value (cellSize (policy g)) * of_int x;
             ymin = yMin (inputBounds g) + value (cellSize (policy g)) * of_int y;
             xmax = clampBelow
                      (xMin (inputBounds g) + value (cellSize (policy g)) * of_int (x + 1))
                      (xMax (inputBounds g));
             ymax = clampBelow
                      (yMin (inputBounds g) + value (cellSize (policy g)) * of_int (y + 1))
                      (yMax (inputBounds g))
         in (True, \<lparr>xMin = xmin, yMin = ymin, xMax = xmax, yMax = ymax\<rparr>))
      else (False, output))"

text \<open>
  The centroid loop walks the list with an iterator and either steps over a feature or
  erases it. The state of the walk is the part of the list already passed (\<open>kept\<close>) and
  the part still ahead.
\<close>

fun cull_by_centroid ::
  "'g Geometry \<Rightarrow> Bounds \<Rightarrow> 'g Feature list \<Rightarrow> 'g Feature list \<Rightarrow> 'g Feature list" where
  "cull_by_centroid G b kept [] = kept"
| "cull_by_centroid G b kept (feature # ahead) =
     (let keepFeature =
            (case geometry feature of
               None \<Rightarrow> False
             | Some featureGeom \<Rightarrow>
                (let centroid = center (getBounds G featureGeom)
                 in contains b (fst centroid) (snd centroid)))
      in if keepFeature then cull_by_centroid G b (kept @ [feature]) ahead
         else cull_by_centroid G b kept ahead)"

text \<open>
  The cropping loop also owns engine geometries. \<open>live\<close> lists the engine geometries that
  have been created and not yet destroyed; creating one puts it in front, and
  \<open>destroyGeometry\<close> takes one occurrence out.
\<close>

fun cull_by_cropping ::
  "'g Geometry \<Rightarrow> ('g, 'e) GEOS \<Rightarrow> 'e option
   \<Rightarrow> 'g Feature list \<times> 'e list \<times> notify list \<Rightarrow> 'g Feature list
   \<Rightarrow> 'g Feature list \<times> 'e list \<times> notify list" where
  "cull_by_cropping G E cropGeom (kept, live, out) [] = (kept, live, out)"
| "cull_by_cropping G E cropGeom (kept, live, out) (feature # ahead) =
     (case geometry feature of
        None \<Rightarrow> cull_by_cropping G E cropGeom (kept, live, out) ahead
      | Some featureGeom \<Rightarrow>
         (case importGeometry E featureGeom of
            None \<Rightarrow> cull_by_cropping G E cropGeom (kept, live, out) ahead
          | Some inGeom \<Rightarrow>
             (case overlayOp_INTERSECTION E inGeom cropGeom of
                Throws \<Rightarrow>
                  cull_by_cropping G E cropGeom
                    (kept, inGeom # live, out @ [Overlay_Exception]) ahead
              | Returns None \<Rightarrow>
                  cull_by_cropping G E cropGeom (kept, inGeom # live, out) ahead
              | Returns (Some outGeom) \<Rightarrow>
                 (let exported = exportGeometry E outGeom;
                      live' = remove1 outGeom (outGeom # inGeom # live)
                  in case exported of
                       None \<Rightarrow> cull_by_cropping G E cropGeom (kept, live', out) ahead
                     | Some clipped \<Rightarrow>
                        if isValid G clipped
                        then cull_by_cropping G E cropGeom
                               (kept @ [feature\<lparr>geometry := Some clipped\<rparr>], live', out)
                               ahead
                        else cull_by_cropping G E cropGeom (kept, live', out) ahead))))"

definition cell_polygon :: "Bounds \<Rightarrow> Vec3d list" where
  \<comment> \<open>the four corners pushed onto the intersection polygon\<close>
  "cell_polygon b =
     [(xMin b, yMin b, 0), (xMax b, yMin b, 0), (xMax b, yMax b, 0), (xMin b, yMax b, 0)]"

definition cullFeatureListToCell ::
  "'g Geometry \<Rightarrow> ('g, 'e) GEOS option \<Rightarrow> FeatureGridder \<Rightarrow> Bounds \<Rightarrow> int
   \<Rightarrow> 'g Feature list \<times> 'e list
   \<Rightarrow> bool \<times> 'g Feature list \<times> 'e list \<times> notify list" where
  \<comment> \<open>\<open>geos\<close> is \<open>None\<close> in a build without \<open>OSGEARTH_HAVE_GEOS\<close>; \<open>b0\<close> is the
      default-constructed local \<open>Bounds b\<close>; the result is the returned flag, the list as
      the call leaves it, the engine geometries still alive, and the lines notified\<close>
  "cullFeatureListToCell G geos g b0 i state =
     (let success = True;
          features = fst state;
          live = snd state;
          inCount = length features;
          found = getCellBounds g i b0;
          b = snd found;
          after =
            (if fst found then
               if value (cullingTechnique (policy g)) = CULL_BY_CENTROID
               then (cull_by_centroid G b [] features, live, [])
               else
                 (case geos of
                    None \<Rightarrow> (features, live, [])
                  | Some E \<Rightarrow>
                     (let cropGeom = importGeometry E (Polygon G (cell_polygon b));
                          live1 = (case cropGeom of None \<Rightarrow> live | Some c \<Rightarrow> c # live);
                          looped = cull_by_cropping G E cropGeom ([], live1, []) features;
                          live2 = (case cropGeom of
                                     None \<Rightarrow> fst (snd looped)
                                   | Some c \<Rightarrow> remove1 c (fst (snd looped)))
                      in (fst looped, live2, snd (snd looped))))
             else (features, live, []))
      in (success, fst after, fst (snd after),
          snd (snd after) @ [Grid_Cell i b inCount (length (fst after))]))"


section \<open>Cropping one feature, as the specification words it\<close>

text \<open>
  The specification describes cropping feature by feature: import the geometry, intersect
  it with the cell rectangle, export the result and check it; the feature is kept, with
  the clipped geometry, only if every step succeeds. \<open>clip_to_cell\<close> is that description;
  the loop of the source is compared with it below.
\<close>

definition overlay_intersection :: "('g, 'e) GEOS \<Rightarrow> 'e option \<Rightarrow> 'e \<Rightarrow> 'e option" where
  "overlay_intersection E cropGeom inGeom =
     (case overlayOp_INTERSECTION E inGeom cropGeom of Throws \<Rightarrow> None | Returns r \<Rightarrow> r)"

definition clip_to_cell ::
  "'g Geometry \<Rightarrow> ('g, 'e) GEOS \<Rightarrow> 'e option \<Rightarrow> 'g Feature \<Rightarrow> 'g Feature option" where
  "clip_to_cell G E cropGeom feature =
     map_option (\<lambda>clipped. feature\<lparr>geometry := Some clipped\<rparr>)
       (Option.bind (Option.bind (Option.bind (Option.bind (geometry feature)
          (importGeometry E))
          (overlay_intersection E cropGeom))
          (exportGeometry E))
          (\<lambda>clipped. if isValid G clipped then Some clipped else None))"


section \<open>A concrete geometry and overlay engine\<close>

text \<open>
  The theorems below hold for every geometry type and every overlay engine. To run the
  gridder on concrete inputs, geometries are taken to be axis-aligned boxes: a box is its
  own bounding box, it is valid when its interior is not empty, and the engine intersects
  two boxes edge by edge. The engine refuses to import an inverted box, and it throws
  when the second operand is null or the first one has no area.
\<close>

fun box_of :: "Vec3d list \<Rightarrow> Bounds" where
  "box_of [] = \<lparr>xMin = 0, yMin = 0, xMax = 0, yMax = 0\<rparr>"
| "box_of [(x, y, z)] = \<lparr>xMin = x, yMin = y, xMax = x, yMax = y\<rparr>"
| "box_of ((x, y, z) # v # vs) =
     (let b = box_of (v # vs)
      in \<lparr>xMin = min x (xMin b), yMin = min y (yMin b),
          xMax = max x (xMax b), yMax = max y (yMax b)\<rparr>)"

definition box_geometry :: "Bounds Geometry" where
  "box_geometry =
     \<lparr>getBounds = (\<lambda>b. b),
      isValid = (\<lambda>b. xMin b < xMax b \<and> yMin b < yMax b),
      Polygon = box_of\<rparr>"

definition box_engine :: "(Bounds, Bounds) GEOS" where
  "box_engine =
     \<lparr>importGeometry = (\<lambda>b. if xMin b \<le> xMax b \<and> yMin b \<le> yMax b then Some b else None),
      overlayOp_INTERSECTION =
        (\<lambda>a c. case c of
                 None \<Rightarrow> Throws
               | Some c \<Rightarrow>
                  if xMin a = xMax a \<or> yMin a = yMax a then Throws
                  else
                    Returns (Some \<lparr>xMin = max (xMin a) (xMin c), yMin = max (yMin a) (yMin c),
                                   xMax = min (xMax a) (xMax c), yMax = min (yMax a) (yMax c)\<rparr>)),
      exportGeometry = Some\<rparr>"

definition box :: "real \<Rightarrow> real \<Rightarrow> real \<Rightarrow> real \<Rightarrow> Bounds" where
  "box x0 y0 x1 y1 = \<lparr>xMin = x0, yMin = y0, xMax = x1, yMax = y1\<rparr>"

definition box_feature :: "nat \<Rightarrow> Bounds \<Rightarrow> Bounds Feature" where
  "box_feature n b = \<lparr>fid = n, geometry = Some b\<rparr>"

definition policy_with ::
  "real \<Rightarrow> CullingTechnique \<Rightarrow> GriddingPolicy" where
  \<comment> \<open>the default policy after assigning a cell size and a culling technique\<close>
  "policy_with cs t =
     GriddingPolicy_default
       \<lparr>cellSize := optional_assign cs (cellSize GriddingPolicy_default),
        cullingTechnique := optional_assign t (cullingTechnique GriddingPolicy_default)\<rparr>"

definition gridder_10_by_5 :: "CullingTechnique \<Rightarrow> FeatureGridder" where
  \<comment> \<open>the spec's example: extent (0,0)-(10,10) with cell size 5, a grid of 2 by 2\<close>
  "gridder_10_by_5 t =
     \<lparr>inputBounds = box 0 0 10 10, policy = policy_with 5 t, cellsX = 2, cellsY = 2\<rparr>"



definition gridder_zero_cell_size :: FeatureGridder where
  \<comment> \<open>extent (0,0)-(10,10) with the cell size set to 0\<close>
  "gridder_zero_cell_size =
     \<lparr>inputBounds = box 0 0 10 10, policy = policy_with 0 CULL_BY_CENTROID,
      cellsX = 1, cellsY = 1\<rparr>"


section \<open>Invalid cell indices\<close>

text \<open>
  C7. For an index outside the grid, \<open>cullFeatureListToCell\<close> removes nothing, changes no
  geometry, touches no engine geometry, and reports success; its only trace is the
  diagnostic line.
\<close>

theorem cullFeatureListToCell_invalid_index:
  assumes "i < 0 \<or> getNumCells g \<le> i"
  shows "cullFeatureListToCell G geos g b0 i (features, live)
         = (True, features, live, [Grid_Cell i b0 (length features) (length features)])"
proof -
  from assms have "getCellBounds g i b0 = (False, b0)"
    by (auto simp: getCellBounds_def getNumCells_def)
  then show ?thesis
    by (simp add: cullFeatureListToCell_def)
qed

theorem cullFeatureListToCell_invalid_index_witness:
  "cullFeatureListToCell box_geometry (Some box_engine) (gridder_10_by_5 CULL_BY_CROPPING)
     (box 0 0 0 0) 4 ([box_feature 1 (box 1 1 2 2)], [])
   = (True, [box_feature 1 (box 1 1 2 2)], [], [Grid_Cell 4 (box 0 0 0 0) 1 1])"
  using cullFeatureListToCell_invalid_index
    [of 4 "gridder_10_by_5 CULL_BY_CROPPING" box_geometry "Some box_engine" "box 0 0 0 0"
        "[box_feature 1 (box 1 1 2 2)]" "[]"]
  by (simp add: getNumCells_def gridder_10_by_5_def wrap_int_def)

text \<open>
  C10. \<open>cullFeatureListToCell\<close> returns \<open>true\<close> for every index, valid or not, and every
  feature list.
\<close>

theorem cullFeatureListToCell_returns_true:
  "fst (cullFeatureListToCell G geos g b0 i state) = True"
  by (simp add: cullFeatureListToCell_def Let_def)


section \<open>Cell bounds\<close>

lemma smod_nonneg:
  fixes i n :: int
  assumes "0 \<le> i" and "0 < n"
  shows "i smod n = i mod n"
  using assms by (simp add: signed_modulo_int_def sgn_if)

lemma sdiv_nonneg:
  fixes i n :: int
  assumes "0 \<le> i" and "0 < n"
  shows "i sdiv n = i div n"
  using assms by (simp add: signed_divide_int_def sgn_if)

lemma clampBelow_min: "clampBelow v m = min v m"
  by (auto simp: clampBelow_def min_def)


text \<open>What the constructor establishes: it keeps the extent and the cell size it was
  given, and both grid dimensions are at least 1.\<close>

lemma FeatureGridder_new_fields:
  assumes "FeatureGridder_new have_geos e p = Inr (g, out)"
  shows "inputBounds g = e" and "cellSize (policy g) = cellSize p"
    and "1 \<le> cellsX g" and "1 \<le> cellsY g"
  using assms
  by (auto simp: FeatureGridder_new_def Let_def clampAbove_def
           split: sum.splits prod.splits if_splits)

lemma getCellBounds_cell:
  assumes "FeatureGridder_new have_geos e p = Inr (g, out)"
    and "0 \<le> i" and "i < getNumCells g"
  shows "getCellBounds g i output =
           (True,
            \<lparr>xMin = xMin e + value (cellSize p) * of_int (i mod cellsX g),
             yMin = yMin e + value (cellSize p) * of_int (i div cellsX g),
             xMax = min (xMin e + value (cellSize p) * of_int (i mod cellsX g + 1)) (xMax e),
             yMax = min (yMin e + value (cellSize p) * of_int (i div cellsX g + 1)) (yMax e)\<rparr>)"
proof -
  note f = FeatureGridder_new_fields [OF assms(1)]
  have "i smod cellsX g = i mod cellsX g" and "i sdiv cellsX g = i div cellsX g"
    using f(3) assms(2) by (simp_all add: smod_nonneg sdiv_nonneg)
  with assms(2,3) show ?thesis
    by (simp add: getCellBounds_def getNumCells_def Let_def clampBelow_min f(1,2))
qed

text \<open>
  C2. On a constructed gridder, \<open>getCellBounds\<close> refuses exactly the indices outside
  \<open>[0, getNumCells)\<close> and leaves the output as it was; for an index inside, it returns
  the cell in column \<open>i mod cellsX\<close> and row \<open>i div cellsX\<close>, whose upper edges are cut
  at the extent.
\<close>

theorem getCellBounds_result:
  assumes "FeatureGridder_new have_geos e p = Inr (g, out)"
  shows "getCellBounds g i output =
           (if 0 \<le> i \<and> i < getNumCells g then
              (True,
               \<lparr>xMin = xMin e + value (cellSize p) * of_int (i mod cellsX g),
                yMin = yMin e + value (cellSize p) * of_int (i div cellsX g),
                xMax = min (xMin e + value (cellSize p) * of_int (i mod cellsX g + 1)) (xMax e),
                yMax = min (yMin e + value (cellSize p) * of_int (i div cellsX g + 1)) (yMax e)\<rparr>)
            else (False, output))"
proof (cases "0 \<le> i \<and> i < getNumCells g")
  case True
  then show ?thesis
    using getCellBounds_cell [OF assms, of i] by simp
next
  case False
  then show ?thesis
    by (auto simp: getCellBounds_def getNumCells_def)
qed

lemma gridder_10_by_5_new:
  "FeatureGridder_new True (box 0 0 10 10) (policy_with 5 t) = Inr (gridder_10_by_5 t, [])"
  by (simp add: FeatureGridder_new_def grid_dimensions_def policy_with_def
      GriddingPolicy_default_def optional_assign_def optional_default_def box_def width_def
      height_def ceil_double_def double_to_int_def INT_MIN_def INT_MAX_def clampAbove_def
      gridder_10_by_5_def)

theorem getCellBounds_result_witness:
  "getCellBounds (gridder_10_by_5 CULL_BY_CENTROID) 3 (box 0 0 0 0) = (True, box 5 5 10 10)
   \<and> getCellBounds (gridder_10_by_5 CULL_BY_CENTROID) 4 (box 0 0 0 0) = (False, box 0 0 0 0)"
  using getCellBounds_result [OF gridder_10_by_5_new, of CULL_BY_CENTROID 3 "box 0 0 0 0"]
    getCellBounds_result [OF gridder_10_by_5_new, of CULL_BY_CENTROID 4 "box 0 0 0 0"]
  by (simp add: getNumCells_def gridder_10_by_5_def wrap_int_def box_def policy_with_def
      GriddingPolicy_default_def optional_assign_def optional_default_def)


section \<open>Culling by centroid\<close>

lemma cull_by_centroid_filter:
  "cull_by_centroid G b kept fs =
     kept @ filter (\<lambda>f. \<exists>geom. geometry f = Some geom
                        \<and> contains b (fst (center (getBounds G geom)))
                                     (snd (center (getBounds G geom)))) fs"
  by (induction fs arbitrary: kept) (auto simp: Let_def split: option.splits)

text \<open>
  C1. Under \<open>CULL_BY_CENTROID\<close> and for a valid cell index, the list left by
  \<open>cullFeatureListToCell\<close> consists of exactly the features that have a geometry whose
  bounding-box centre \<open>(px, py)\<close> satisfies \<open>xmin \<le> px \<le> xmax\<close> and \<open>ymin \<le> py \<le> ymax\<close>
  for the bounds of cell \<open>i\<close>, in their original order; a feature without geometry is
  removed.
\<close>

theorem cullFeatureListToCell_by_centroid:
  assumes "value (cullingTechnique (policy g)) = CULL_BY_CENTROID"
    and "0 \<le> i" and "i < getNumCells g"
    and "b = snd (getCellBounds g i b0)"
  shows "fst (snd (cullFeatureListToCell G geos g b0 i (features, live))) =
           filter (\<lambda>f. \<exists>geom. geometry f = Some geom
                         \<and> xMin b \<le> fst (center (getBounds G geom))
                         \<and> fst (center (getBounds G geom)) \<le> xMax b
                         \<and> yMin b \<le> snd (center (getBounds G geom))
                         \<and> snd (center (getBounds G geom)) \<le> yMax b) features"
proof -
  from assms(2,3) have "fst (getCellBounds g i b0)"
    by (simp add: getCellBounds_def getNumCells_def Let_def)
  with assms(1,4) show ?thesis
    by (simp add: cullFeatureListToCell_def Let_def cull_by_centroid_filter contains_def)
qed

lemma gridder_10_by_5_cell_3:
  "getCellBounds (gridder_10_by_5 t) 3 b0 = (True, box 5 5 10 10)"
  by (simp add: getCellBounds_def gridder_10_by_5_def wrap_int_def box_def policy_with_def
      GriddingPolicy_default_def optional_assign_def optional_default_def
      signed_modulo_int_def signed_divide_int_def clampBelow_def)

lemma gridder_10_by_5_cells: "getNumCells (gridder_10_by_5 t) = 4"
  by (simp add: getNumCells_def gridder_10_by_5_def wrap_int_def)

lemma gridder_10_by_5_technique:
  "value (cullingTechnique (policy (gridder_10_by_5 t))) = t"
  by (simp add: gridder_10_by_5_def policy_with_def optional_assign_def)

theorem cullFeatureListToCell_by_centroid_witness:
  "fst (snd (cullFeatureListToCell box_geometry (Some box_engine)
               (gridder_10_by_5 CULL_BY_CENTROID) (box 0 0 0 0) 3
               ([box_feature 1 (box 0 0 2 2), box_feature 2 (box 5 5 7 7),
                 \<lparr>fid = 3, geometry = None\<rparr>, box_feature 4 (box 9 9 11 11)],
                [])))
   = [box_feature 2 (box 5 5 7 7), box_feature 4 (box 9 9 11 11)]"
  using cullFeatureListToCell_by_centroid
    [of "gridder_10_by_5 CULL_BY_CENTROID" 3 "box 5 5 10 10" "box 0 0 0 0" box_geometry
        "Some box_engine"
        "[box_feature 1 (box 0 0 2 2), box_feature 2 (box 5 5 7 7),
          \<lparr>fid = 3, geometry = None\<rparr>, box_feature 4 (box 9 9 11 11)]" "[]"]
  by (simp add: gridder_10_by_5_cell_3 gridder_10_by_5_cells gridder_10_by_5_technique
      box_feature_def box_geometry_def center_def box_def)


section \<open>Construction\<close>










section \<open>The single-cell grid\<close>

text \<open>
  With the cell size unset, the policy holds the sentinel \<open>DBL_MAX\<close>; the grid has one
  cell, and its upper edges are cut back to the extent as long as the extent is no wider
  and no higher than the sentinel.
\<close>

lemma unset_cell_size_single_cell:
  assumes "\<not> isSet (cellSize p)" and "value (cellSize p) = DBL_MAX"
    and "width e \<le> DBL_MAX" and "height e \<le> DBL_MAX"
    and "FeatureGridder_new have_geos e p = Inr (g, out)"
  shows "getNumCells g = 1" and "getCellBounds g 0 b0 = (True, e)"
proof -
  from assms(1,5) have c: "cellsX g = 1" "cellsY g = 1"
    and f: "inputBounds g = e" "cellSize (policy g) = cellSize p"
    by (auto simp: FeatureGridder_new_def grid_dimensions_def Let_def clampAbove_def
             split: if_splits)
  show "getNumCells g = 1"
    by (simp add: getNumCells_def c wrap_int_def)
  from assms(3,4) have "xMax e \<le> xMin e + DBL_MAX" and "yMax e \<le> yMin e + DBL_MAX"
    by (simp_all add: width_def height_def)
  then show "getCellBounds g 0 b0 = (True, e)"
    by (simp add: getCellBounds_def c f assms(2) wrap_int_def Let_def clampBelow_def
        signed_modulo_int_def signed_divide_int_def)
qed

text \<open>
  C5. With the cell size set to a value that is not positive, the constructor also makes
  a grid of one cell, but \<open>getCellBounds\<close> still adds the cell size to the lower edges:
  for the extent (0,0)-(10,10) and cell size 0 the one cell is the point (0,0)-(0,0), not
  the extent.
\<close>

theorem zero_cell_size_bounds:
  "FeatureGridder_new True (box 0 0 10 10) (policy_with 0 CULL_BY_CENTROID)
     = Inr (gridder_zero_cell_size, [])
   \<and> getNumCells gridder_zero_cell_size = 1
   \<and> getCellBounds gridder_zero_cell_size 0 (box 1 1 1 1) = (True, box 0 0 0 0)
   \<and> box 0 0 0 0 \<noteq> box 0 0 10 10"
  by (simp add: FeatureGridder_new_def grid_dimensions_def policy_with_def
      GriddingPolicy_default_def optional_assign_def optional_default_def box_def
      clampAbove_def clampBelow_def gridder_zero_cell_size_def getNumCells_def wrap_int_def
      getCellBounds_def signed_modulo_int_def signed_divide_int_def)


section \<open>Culling by cropping\<close>

lemma clip_to_cell_cases:
  "clip_to_cell G E cropGeom feature =
     (case geometry feature of
        None \<Rightarrow> None
      | Some featureGeom \<Rightarrow>
         (case importGeometry E featureGeom of
            None \<Rightarrow> None
          | Some inGeom \<Rightarrow>
             (case overlayOp_INTERSECTION E inGeom cropGeom of
                Throws \<Rightarrow> None
              | Returns None \<Rightarrow> None
              | Returns (Some outGeom) \<Rightarrow>
                 (case exportGeometry E outGeom of
                    None \<Rightarrow> None
                  | Some clipped \<Rightarrow>
                     if isValid G clipped then Some (feature\<lparr>geometry := Some clipped\<rparr>)
                     else None))))"
  by (simp add: clip_to_cell_def overlay_intersection_def
           split: option.splits overlay_result.splits)

lemma cull_by_cropping_features:
  "fst (cull_by_cropping G E cropGeom (kept, live, out) fs) =
     kept @ List.map_filter (clip_to_cell G E cropGeom) fs"
proof (induction fs arbitrary: kept live out)
  case Nil
  show ?case by (simp add: List.map_filter_simps)
next
  case (Cons f fs)
  show ?case
    by (simp add: Cons.IH clip_to_cell_cases List.map_filter_simps Let_def
             split: option.splits overlay_result.splits)
qed

text \<open>
  C6. Under \<open>CULL_BY_CROPPING\<close>, with the engine present and a valid cell index, the list
  left by \<open>cullFeatureListToCell\<close> is obtained feature by feature: a feature whose import
  fails, whose overlay throws or returns nothing, or whose exported result is missing or
  invalid contributes nothing, every other feature contributes itself with the clipped
  geometry; what happens to one feature never depends on the others.
\<close>

theorem cullFeatureListToCell_by_cropping:
  assumes "value (cullingTechnique (policy g)) = CULL_BY_CROPPING"
    and "0 \<le> i" and "i < getNumCells g"
    and "cropGeom = importGeometry E (Polygon G (cell_polygon (snd (getCellBounds g i b0))))"
  shows "fst (snd (cullFeatureListToCell G (Some E) g b0 i (features, live))) =
           List.map_filter (clip_to_cell G E cropGeom) features"
proof -
  from assms(2,3) have "fst (getCellBounds g i b0)"
    by (simp add: getCellBounds_def getNumCells_def Let_def)
  with assms(1,4) show ?thesis
    by (simp add: cullFeatureListToCell_def Let_def cull_by_cropping_features)
qed

lemma cell_3_polygon:
  "importGeometry box_engine (Polygon box_geometry (cell_polygon (box 5 5 10 10)))
   = Some (box 5 5 10 10)"
  by (simp add: box_engine_def box_geometry_def cell_polygon_def box_def)

lemma clip_to_cell_3_examples:
  "clip_to_cell box_geometry box_engine (Some (box 5 5 10 10)) (box_feature 7 (box 4 4 7 7))
     = Some (box_feature 7 (box 5 5 7 7))"
  "clip_to_cell box_geometry box_engine (Some (box 5 5 10 10)) (box_feature 2 (box 0 0 2 2))
     = None"
  "clip_to_cell box_geometry box_engine (Some (box 5 5 10 10)) (box_feature 3 (box 6 6 6 8))
     = None"
  "clip_to_cell box_geometry box_engine (Some (box 5 5 10 10)) (box_feature 4 (box 3 3 1 1))
     = None"
  "clip_to_cell box_geometry box_engine (Some (box 5 5 10 10)) \<lparr>fid = 5, geometry = None\<rparr>
     = None"
  "clip_to_cell box_geometry box_engine (Some (box 5 5 10 10)) (box_feature 6 (box 9 9 12 12))
     = Some (box_feature 6 (box 9 9 10 10))"
  by (simp_all add: clip_to_cell_cases box_feature_def box_engine_def box_geometry_def box_def)

theorem cullFeatureListToCell_by_cropping_witness:
  "fst (snd (cullFeatureListToCell box_geometry (Some box_engine)
               (gridder_10_by_5 CULL_BY_CROPPING) (box 0 0 0 0) 3
               ([box_feature 7 (box 4 4 7 7), box_feature 2 (box 0 0 2 2),
                 box_feature 3 (box 6 6 6 8), box_feature 4 (box 3 3 1 1),
                 \<lparr>fid = 5, geometry = None\<rparr>, box_feature 6 (box 9 9 12 12)],
                [])))
   = [box_feature 7 (box 5 5 7 7), box_feature 6 (box 9 9 10 10)]"
  using cullFeatureListToCell_by_cropping
    [of "gridder_10_by_5 CULL_BY_CROPPING" 3 "Some (box 5 5 10 10)" box_engine box_geometry
        "box 0 0 0 0"
        "[box_feature 7 (box 4 4 7 7), box_feature 2 (box 0 0 2 2),
          box_feature 3 (box 6 6 6 8), box_feature 4 (box 3 3 1 1),
          \<lparr>fid = 5, geometry = None\<rparr>, box_feature 6 (box 9 9 12 12)]" "[]"]
  by (simp add: gridder_10_by_5_cell_3 gridder_10_by_5_cells gridder_10_by_5_technique
      cell_3_polygon List.map_filter_simps clip_to_cell_3_examples)


section \<open>Engine geometries left alive\<close>

text \<open>
  The cropping loop destroys each overlay result after exporting it, and the cell
  rectangle after the loop. The geometry imported for a feature is never destroyed: after
  the loop, every one of them is still alive.
\<close>

lemma cull_by_cropping_live:
  "fst (snd (cull_by_cropping G E cropGeom (kept, live, out) fs)) =
     rev (List.map_filter (\<lambda>f. Option.bind (geometry f) (importGeometry E)) fs) @ live"
proof (induction fs arbitrary: kept live out)
  case Nil
  show ?case by (simp add: List.map_filter_simps)
next
  case (Cons f fs)
  show ?case
    by (simp add: Cons.IH List.map_filter_simps Let_def
             split: option.splits overlay_result.splits)
qed

text \<open>
  C9. Cropping the single feature with box (4,4)-(7,7) to cell 3, starting with no engine
  geometry alive, returns with the imported box (4,4)-(7,7) still alive.
\<close>

theorem cullFeatureListToCell_leaves_import_alive:
  "cullFeatureListToCell box_geometry (Some box_engine)
     (gridder_10_by_5 CULL_BY_CROPPING) (box 0 0 0 0) 3 ([box_feature 1 (box 4 4 7 7)], [])
   = (True, [box_feature 1 (box 5 5 7 7)], [box 4 4 7 7], [Grid_Cell 3 (box 5 5 10 10) 1 1])"
proof -
  have "cull_by_cropping box_geometry box_engine (Some (box 5 5 10 10))
          ([], [box 5 5 10 10], []) [box_feature 1 (box 4 4 7 7)]
        = ([box_feature 1 (box 5 5 7 7)], [box 4 4 7 7, box 5 5 10 10], [])"
    by (simp add: box_feature_def box_engine_def box_geometry_def box_def)
  moreover have "remove1 (box 5 5 10 10) [box 4 4 7 7, box 5 5 10 10] = [box 4 4 7 7]"
    by (simp add: box_def)
  ultimately show ?thesis
    by (simp add: cullFeatureListToCell_def gridder_10_by_5_cell_3 gridder_10_by_5_technique
        cell_3_polygon)
qed


section \<open>The cells tile the extent\<close>














end
